theory Spec2Isabelle
  imports Complex_Main "HOL-Library.Char_ord" "HOL-Library.List_Lexorder" "HOL-Library.AList"
begin

section \<open>Python strings\<close>

text \<open>
  A Python \<open>str\<close> is modelled as a \<open>string\<close>; a \<open>char\<close> stands for the code
  point of the same number, so the model covers the strings over U+0000..U+00FF.
  The library functions below follow CPython on that range.
\<close>

definition is_space :: "char \<Rightarrow> bool" where
  \<comment> \<open>\<open>str.isspace\<close> on one character: TAB..CR, FS..US, SPACE, NEL, NBSP\<close>
  "is_space c =
     (let n = (of_char c :: nat)
      in (9 \<le> n \<and> n \<le> 13) \<or> (28 \<le> n \<and> n \<le> 32) \<or> n = 133 \<or> n = 160)"

definition strip :: "string \<Rightarrow> string" where
  \<comment> \<open>\<open>str.strip()\<close>\<close>
  "strip s = rev (dropWhile is_space (rev (dropWhile is_space s)))"

fun split :: "char \<Rightarrow> string \<Rightarrow> string list" where
  \<comment> \<open>\<open>str.split(sep)\<close> for a separator of one character\<close>
  "split sep [] = [[]]"
| "split sep (c # cs) =
     (if c = sep then [] # split sep cs
      else (case split sep cs of
              p # ps \<Rightarrow> (c # p) # ps
            | [] \<Rightarrow> [[c]]))"

definition lower_char :: "char \<Rightarrow> char" where
  \<comment> \<open>A..Z and the capital letters of U+00C0..U+00DE move up by 32, that is, bit 5
      (clear in both ranges) is set\<close>
  "lower_char c =
     (let n = (of_char c :: nat)
      in if (65 \<le> n \<and> n \<le> 90) \<or> (192 \<le> n \<and> n \<le> 222 \<and> n \<noteq> 215)
         then Char (digit0 c) (digit1 c) (digit2 c) (digit3 c) (digit4 c) True (digit6 c) (digit7 c)
         else c)"

definition lower :: "string \<Rightarrow> string" where
  \<comment> \<open>\<open>str.lower()\<close>\<close>
  "lower s = map lower_char s"

fun rfind :: "char \<Rightarrow> string \<Rightarrow> nat option" where
  \<comment> \<open>\<open>str.rfind(c)\<close>; \<open>None\<close> stands for -1\<close>
  "rfind c [] = None"
| "rfind c (x # xs) =
     (case rfind c xs of
        Some i \<Rightarrow> Some (Suc i)
      | None \<Rightarrow> if x = c then Some 0 else None)"

definition suffix :: "string \<Rightarrow> string" where
  \<comment> \<open>\<open>PurePath.suffix\<close> of a path whose final component is \<open>name\<close>:
      \<open>i = name.rfind('.')\<close>; \<open>name[i:]\<close> if \<open>0 < i < len(name) - 1\<close>, else \<open>''\<close>\<close>
  "suffix name =
     (case rfind (CHR ''.'') name of
        None \<Rightarrow> []
      | Some i \<Rightarrow> if 0 < i \<and> i + 1 < length name then drop i name else [])"

definition is_digit :: "char \<Rightarrow> bool" where
  "is_digit c = (let n = (of_char c :: nat) in 48 \<le> n \<and> n \<le> 57)"

definition digit_val :: "char \<Rightarrow> nat" where
  "digit_val c = of_char c - 48"

definition nat_of_digits :: "string \<Rightarrow> nat" where
  \<comment> \<open>the number a string of decimal digits denotes\<close>
  "nat_of_digits ds = foldl (\<lambda>a c. 10 * a + digit_val c) 0 ds"

fun underscores_ok :: "string \<Rightarrow> bool" where
  \<comment> \<open>\<open>int()\<close> accepts an underscore only between two digits\<close>
  "underscores_ok [] = False"
| "underscores_ok [c] = is_digit c"
| "underscores_ok (c # d # cs) =
     (if is_digit c then
        (if d = CHR ''_'' then underscores_ok cs else underscores_ok (d # cs))
      else False)"

definition split_sign :: "string \<Rightarrow> bool \<times> string" where
  \<comment> \<open>an optional leading \<open>-\<close> or \<open>+\<close>; the flag says the sign is \<open>-\<close>\<close>
  "split_sign t =
     (case t of
        c # cs \<Rightarrow> if c = CHR ''-'' then (True, cs)
                  else if c = CHR ''+'' then (False, cs)
                  else (False, t)
      | [] \<Rightarrow> (False, []))"

definition int_of_string :: "string \<Rightarrow> int option" where
  \<comment> \<open>\<open>int(s)\<close> for a \<open>str\<close>, base 10: surrounding whitespace, an optional sign,
      digits with single underscores between them; \<open>None\<close> is ValueError\<close>
  "int_of_string s =
     (let (neg, body) = split_sign (strip s)
      in if underscores_ok body
         then (let n = int (nat_of_digits (filter (\<lambda>c. c \<noteq> CHR ''_'') body))
               in Some (if neg then - n else n))
         else None)"


section \<open>Python values\<close>

text \<open>
  The values the program handles come from \<open>json.loads\<close> and \<open>Response.json()\<close>.
  A \<open>float\<close> is a sign, a mantissa and a binary exponent, or one of the special
  values that \<open>json.loads\<close> reads from \<open>Infinity\<close>, \<open>-Infinity\<close> and \<open>NaN\<close>.
  A \<open>dict\<close> is the list of its items; a key is looked up with \<open>map_of\<close>.
\<close>

datatype pyfloat = FFinite bool nat int | FInf bool | FNaN

datatype json =
    JNull
  | JBool bool
  | JInt int
  | JFloat pyfloat
  | JStr string
  | JArr "json list"
  | JObj "(string \<times> json) list"

datatype runtime_error =
    SecretsDirMissing
  | ExpectedOneJson nat "string list"
  | SecretsNotFound
  | NoBalances
  | MissingEnv string

datatype error =
    RuntimeError runtime_error
  | AttributeError
  | TypeError
  | KeyError string
  | IndexError
  | ValueError
  | OverflowError
  | InvalidOperation
  | JSONDecodeError
  | FileNotFoundError
  | NotADirectoryError
  | IsADirectoryError
  | FileExistsError
  | ConnectionError
  | HTTPError nat
  | SheetsError

definition and_then :: "error + 'a \<Rightarrow> ('a \<Rightarrow> error + 'b) \<Rightarrow> error + 'b" where
  \<comment> \<open>sequencing: an exception of the first step ends the computation\<close>
  "and_then r f = (case r of Inl e \<Rightarrow> Inl e | Inr x \<Rightarrow> f x)"

fun truthy :: "json \<Rightarrow> bool" where
  \<comment> \<open>\<open>bool(v)\<close>\<close>
  "truthy JNull = False"
| "truthy (JBool b) = b"
| "truthy (JInt n) = (n \<noteq> 0)"
| "truthy (JFloat (FFinite s m e)) = (m \<noteq> 0)"
| "truthy (JFloat (FInf s)) = True"
| "truthy (JFloat FNaN) = True"
| "truthy (JStr s) = (s \<noteq> [])"
| "truthy (JArr xs) = (xs \<noteq> [])"
| "truthy (JObj kvs) = (kvs \<noteq> [])"

definition py_or :: "json \<Rightarrow> json \<Rightarrow> json" where
  \<comment> \<open>\<open>a or b\<close>, for operands whose evaluation cannot raise\<close>
  "py_or a b = (if truthy a then a else b)"

fun dict_get :: "json \<Rightarrow> string \<Rightarrow> json \<Rightarrow> error + json" where
  \<comment> \<open>\<open>d.get(key, default)\<close>: only a dict has the method\<close>
  "dict_get (JObj kvs) k d = Inr (case map_of kvs k of Some v \<Rightarrow> v | None \<Rightarrow> d)"
| "dict_get _ k d = Inl AttributeError"

fun getitem :: "json \<Rightarrow> string \<Rightarrow> error + json" where
  \<comment> \<open>\<open>d[key]\<close> for a \<open>str\<close> key\<close>
  "getitem (JObj kvs) k = (case map_of kvs k of Some v \<Rightarrow> Inr v | None \<Rightarrow> Inl (KeyError k))"
| "getitem _ k = Inl TypeError"

fun iterate :: "json \<Rightarrow> error + json list" where
  \<comment> \<open>the elements a \<open>for\<close> loop over the value visits\<close>
  "iterate (JArr xs) = Inr xs"
| "iterate (JObj kvs) = Inr (map (\<lambda>kv. JStr (fst kv)) kvs)"
| "iterate (JStr s) = Inr (map (\<lambda>c. JStr [c]) s)"
| "iterate _ = Inl TypeError"

fun first_item :: "json \<Rightarrow> error + json" where
  \<comment> \<open>\<open>v[0]\<close>\<close>
  "first_item (JArr (x # xs)) = Inr x"
| "first_item (JArr []) = Inl IndexError"
| "first_item (JStr (c # cs)) = Inr (JStr [c])"
| "first_item (JStr []) = Inl IndexError"
| "first_item (JObj kvs) = Inl (KeyError ''0'')"
| "first_item _ = Inl TypeError"

fun hashable :: "json \<Rightarrow> bool" where
  "hashable (JArr xs) = False"
| "hashable (JObj kvs) = False"
| "hashable _ = True"

fun py_int :: "json \<Rightarrow> error + int" where
  \<comment> \<open>\<open>int(v)\<close>; a float is truncated towards zero\<close>
  "py_int (JInt n) = Inr n"
| "py_int (JBool b) = Inr (if b then 1 else 0)"
| "py_int (JFloat (FFinite s m e)) =
     (let a = (if 0 \<le> e then int m * 2 ^ nat e else int (m div 2 ^ nat (- e)))
      in Inr (if s then - a else a))"
| "py_int (JFloat (FInf s)) = Inl OverflowError"
| "py_int (JFloat FNaN) = Inl ValueError"
| "py_int (JStr s) = (case int_of_string s of Some n \<Rightarrow> Inr n | None \<Rightarrow> Inl ValueError)"
| "py_int _ = Inl TypeError"


section \<open>Decimal\<close>

text \<open>
  A \<open>decimal.Decimal\<close> is what \<open>Decimal.as_tuple()\<close> shows: a sign, a coefficient
  and a decimal exponent, or an infinity, or a NaN (sign, signalling flag, diagnostic
  digits). The constructor follows CPython's \<open>decimal\<close> module; exponents are unbounded.
\<close>

datatype decimal = DFinite bool nat int | DInf bool | DNaN bool bool string

definition parse_exponent :: "string \<Rightarrow> int option" where
  \<comment> \<open>\<open>[-+]?\d+\<close>\<close>
  "parse_exponent r =
     (let (neg, ds) = split_sign r
      in if ds \<noteq> [] \<and> list_all is_digit ds
         then Some (if neg then - int (nat_of_digits ds) else int (nat_of_digits ds))
         else None)"

definition parse_number :: "bool \<Rightarrow> string \<Rightarrow> decimal option" where
  \<comment> \<open>\<open>(?=\d|\.\d)\d*(\.\d*)?(E[-+]?\d+)?\<close>: the coefficient is the integer and the
      fractional digits together, the exponent falls by the number of fractional digits\<close>
  "parse_number sign u =
     (let ip = takeWhile is_digit u;
          r1 = dropWhile is_digit u;
          (fp, r2) = (case r1 of
                        c # r \<Rightarrow> if c = CHR ''.''
                                 then (takeWhile is_digit r, dropWhile is_digit r)
                                 else ([], r1)
                      | [] \<Rightarrow> ([], r1))
      in if ip = [] \<and> fp = [] then None
         else (case r2 of
                 [] \<Rightarrow> Some (DFinite sign (nat_of_digits (ip @ fp)) (- int (length fp)))
               | c # r3 \<Rightarrow>
                   if c = CHR ''e'' \<or> c = CHR ''E''
                   then (case parse_exponent r3 of
                           Some e \<Rightarrow> Some (DFinite sign (nat_of_digits (ip @ fp))
                                              (e - int (length fp)))
                         | None \<Rightarrow> None)
                   else None))"

definition parse_special :: "bool \<Rightarrow> string \<Rightarrow> decimal option" where
  \<comment> \<open>\<open>Inf(inity)?\<close> or \<open>s?NaN\d*\<close>, in any letter case\<close>
  "parse_special sign u =
     (let l = lower u
      in if l = ''inf'' \<or> l = ''infinity'' then Some (DInf sign)
         else if take 3 l = ''nan'' \<and> list_all is_digit (drop 3 l)
         then Some (DNaN sign False (dropWhile (\<lambda>c. c = CHR ''0'') (drop 3 l)))
         else if take 4 l = ''snan'' \<and> list_all is_digit (drop 4 l)
         then Some (DNaN sign True (dropWhile (\<lambda>c. c = CHR ''0'') (drop 4 l)))
         else None)"

definition decimal_of_string :: "string \<Rightarrow> decimal option" where
  \<comment> \<open>\<open>Decimal(s)\<close> for a \<open>str\<close>: whitespace around it and underscores are dropped;
      \<open>None\<close> is \<open>decimal.InvalidOperation\<close>\<close>
  "decimal_of_string s =
     (let (sign, u) = split_sign (filter (\<lambda>c. c \<noteq> CHR ''_'') (strip s))
      in case parse_number sign u of
           Some d \<Rightarrow> Some d
         | None \<Rightarrow> parse_special sign u)"

fun lowest_terms :: "nat \<Rightarrow> nat \<Rightarrow> nat \<times> nat" where
  \<comment> \<open>\<open>m / 2^k\<close> with the common factors of two removed\<close>
  "lowest_terms m 0 = (m, 0)"
| "lowest_terms m (Suc k) = (if even m then lowest_terms (m div 2) k else (m, Suc k))"

fun decimal_from_float :: "pyfloat \<Rightarrow> decimal" where
  \<comment> \<open>\<open>Decimal(f)\<close> for a \<open>float\<close>: the exact value, \<open>n / 2^k = n * 5^k / 10^k\<close>\<close>
  "decimal_from_float FNaN = DNaN False False []"
| "decimal_from_float (FInf s) = DInf s"
| "decimal_from_float (FFinite s m e) =
     (if m = 0 then DFinite s 0 0
      else if 0 \<le> e then DFinite s (m * 2 ^ nat e) 0
      else (let (n, k) = lowest_terms m (nat (- e)) in DFinite s (n * 5 ^ k) (- int k)))"

fun sequence_sign :: "json \<Rightarrow> bool option" where
  "sequence_sign (JInt n) = (if n = 0 then Some False else if n = 1 then Some True else None)"
| "sequence_sign (JBool b) = Some b"
| "sequence_sign _ = None"

fun sequence_digit :: "json \<Rightarrow> nat option" where
  "sequence_digit (JInt n) = (if 0 \<le> n \<and> n \<le> 9 then Some (nat n) else None)"
| "sequence_digit (JBool b) = Some (if b then 1 else 0)"
| "sequence_digit _ = None"

fun sequence_digits :: "json \<Rightarrow> nat list option" where
  "sequence_digits (JArr ds) =
     (if list_all (\<lambda>d. sequence_digit d \<noteq> None) ds
      then Some (map (\<lambda>d. the (sequence_digit d)) ds) else None)"
| "sequence_digits _ = None"

definition digits_nat :: "nat list \<Rightarrow> nat" where
  "digits_nat ds = foldl (\<lambda>a d. 10 * a + d) 0 ds"

definition digits_diag :: "nat list \<Rightarrow> string" where
  \<comment> \<open>the digits as characters, leading zeros dropped\<close>
  "digits_diag ds =
     map (\<lambda>d. ''0123456789'' ! d) (dropWhile (\<lambda>d. d = 0) ds)"

fun decimal_of_sequence :: "json list \<Rightarrow> decimal option" where
  \<comment> \<open>\<open>Decimal([sign, digits, exponent])\<close>; \<open>None\<close> is ValueError\<close>
  "decimal_of_sequence [sg, ds, ex] =
     (case (sequence_sign sg, sequence_digits ds) of
        (Some s, Some digits) \<Rightarrow>
          (case ex of
             JStr x \<Rightarrow> if x = ''F'' then Some (DInf s)
                       else if x = ''n'' then Some (DNaN s False (digits_diag digits))
                       else if x = ''N'' then Some (DNaN s True (digits_diag digits))
                       else None
           | JInt e \<Rightarrow> Some (DFinite s (digits_nat digits) e)
           | JBool b \<Rightarrow> Some (DFinite s (digits_nat digits) (if b then 1 else 0))
           | _ \<Rightarrow> None)
      | _ \<Rightarrow> None)"
| "decimal_of_sequence _ = None"

fun Decimal :: "json \<Rightarrow> error + decimal" where
  \<comment> \<open>\<open>Decimal(v)\<close>\<close>
  "Decimal (JStr s) =
     (case decimal_of_string s of Some d \<Rightarrow> Inr d | None \<Rightarrow> Inl InvalidOperation)"
| "Decimal (JInt n) = Inr (DFinite (n < 0) (nat \<bar>n\<bar>) 0)"
| "Decimal (JBool b) = Inr (DFinite False (if b then 1 else 0) 0)"
| "Decimal (JFloat f) = Inr (decimal_from_float f)"
| "Decimal (JArr xs) =
     (case decimal_of_sequence xs of Some d \<Rightarrow> Inr d | None \<Rightarrow> Inl ValueError)"
| "Decimal _ = Inl TypeError"



section \<open>Files and secrets\<close>

text \<open>
  A file is known by what \<open>json.loads\<close> makes of its text: a value, or a decoding
  error. A directory lists its entries by name; an entry is a regular file
  (\<open>Path.is_file()\<close> holds) or something else. Every path of the program is read with
  the rights to do so.
\<close>

datatype file_content = NotJson | Json json

datatype entry = File file_content | NotFile

type_synonym directory = "(string \<times> entry) list"

datatype node = Directory directory | NotDirectory

type_synonym path = "string \<times> entry"
  \<comment> \<open>a path inside a listed directory: its name, and what is there\<close>

fun is_file :: "path \<Rightarrow> bool" where
  "is_file (name, File c) = True"
| "is_file (name, NotFile) = False"

definition is_json_file :: "path \<Rightarrow> bool" where
  \<comment> \<open>\<open>p.is_file() and p.suffix.lower() == ".json"\<close>\<close>
  "is_json_file p = (is_file p \<and> lower (suffix (fst p)) = ''.json'')"

definition find_single_json :: "node option \<Rightarrow> error + path" where
  \<comment> \<open>the argument is what is found at \<open>dir_path\<close>, \<open>None\<close> if nothing is\<close>
  "find_single_json dir_path =
     (case dir_path of
        None \<Rightarrow> Inl (RuntimeError SecretsDirMissing)
      | Some NotDirectory \<Rightarrow> Inl NotADirectoryError
      | Some (Directory entries) \<Rightarrow>
          (let files = sort_key fst (filter is_json_file entries)
           in if length files \<noteq> 1
              then Inl (RuntimeError (ExpectedOneJson (length files) (map fst files)))
              else Inr (files ! 0)))"


fun get_or :: "json \<Rightarrow> string list \<Rightarrow> error + json" where
  \<comment> \<open>\<open>d.get(k1) or d.get(k2) or ...\<close>: the first truthy value, else the last one\<close>
  "get_or d [] = Inr JNull"
| "get_or d [k] = dict_get d k JNull"
| "get_or d (k # ks) =
     and_then (dict_get d k JNull) (\<lambda>v. if truthy v then Inr v else get_or d ks)"



section \<open>The world of one invocation\<close>

text \<open>
  One run of the program sees: a clock, read by \<open>time.time()\<close> (the \<open>k\<close>-th call
  returns \<open>clock k\<close>); the environment variables; what is found at the two secrets
  directories and at \<open>DATA_DIR\<close>; the bank's API, which answers a request or does not;
  and the spreadsheet service, which accepts an update or fails. The run leaves a
  trace: the requests sent, the updates the spreadsheet took and the lines printed.
\<close>

datatype http_result = NoResponse | Response nat "json option"
  \<comment> \<open>the status code, and the body as \<open>Response.json()\<close> reads it (\<open>None\<close>: not JSON)\<close>

datatype request =
    PostTokenNew json json
  | PostTokenRefresh json
  | GetRequest string json

datatype cell = CDecimal decimal | CValue json | CInt int
  \<comment> \<open>\<open>str(amt)\<close>, a value of the payload as it is, \<open>str(n)\<close> of an \<open>int\<close>\<close>

datatype printed = Wrote decimal json json string

record world =
  clock :: "nat \<Rightarrow> rat"
  ticks :: nat
  environ :: "string \<Rightarrow> string option"
  gcbad_secrets_dir :: "node option"
  gsheets_secrets_dir :: "node option"
  data_dir :: "node option"
  token_new_endpoint :: "json \<Rightarrow> json \<Rightarrow> http_result"
  token_refresh_endpoint :: "json \<Rightarrow> http_result"
  get_endpoint :: "string \<Rightarrow> json \<Rightarrow> http_result"
  sheets_accepts :: "path \<Rightarrow> string \<Rightarrow> string \<Rightarrow> cell list list \<Rightarrow> bool"
  requests_sent :: "request list"
  sheet_updates :: "(string \<times> string \<times> cell list list) list"
  stdout :: "printed list"

definition time_time :: "world \<Rightarrow> rat \<times> world" where
  "time_time w = (clock w (ticks w), w\<lparr>ticks := Suc (ticks w)\<rparr>)"

definition int_of_time :: "rat \<Rightarrow> int" where
  \<comment> \<open>\<open>int(t)\<close> for a \<open>float\<close>: towards zero\<close>
  "int_of_time t = (if 0 \<le> t then \<lfloor>t\<rfloor> else \<lceil>t\<rceil>)"

definition send :: "request \<Rightarrow> world \<Rightarrow> world" where
  "send r w = w\<lparr>requests_sent := requests_sent w @ [r]\<rparr>"

definition checked_json :: "http_result \<Rightarrow> error + json" where
  \<comment> \<open>\<open>r.raise_for_status()\<close>, then \<open>r.json()\<close>\<close>
  "checked_json r =
     (case r of
        NoResponse \<Rightarrow> Inl ConnectionError
      | Response status body \<Rightarrow>
          if 400 \<le> status \<and> status < 600 then Inl (HTTPError status)
          else (case body of None \<Rightarrow> Inl JSONDecodeError | Some v \<Rightarrow> Inr v))"


section \<open>Token Manager\<close>

definition token_new :: "json \<Rightarrow> json \<Rightarrow> world \<Rightarrow> (error + json \<times> int) \<times> world" where
  "token_new secret_id secret_key w =
     (let w1 = send (PostTokenNew secret_id secret_key) w
      in case checked_json (token_new_endpoint w secret_id secret_key) of
           Inl e \<Rightarrow> (Inl e, w1)
         | Inr out \<Rightarrow>
             (case getitem out ''refresh'' of
                Inl e \<Rightarrow> (Inl e, w1)
              | Inr refresh \<Rightarrow>
                  (case and_then (dict_get out ''refresh_expires'' (JInt 0)) py_int of
                     Inl e \<Rightarrow> (Inl e, w1)
                   | Inr refresh_expires \<Rightarrow>
                       if refresh_expires \<noteq> 0
                       then (let (t, w2) = time_time w1
                             in (Inr (refresh, int_of_time t + refresh_expires), w2))
                       else (Inr (refresh, 0), w1))))"










section \<open>API Client\<close>



section \<open>Balance Selector\<close>

definition default_preference :: string where
  "default_preference = ''closingBooked,closingAvailable,interimBooked,interimAvailable,expected''"

definition preferred_types :: "string option \<Rightarrow> string list" where
  \<comment> \<open>the list \<open>preferred\<close> of \<open>choose_balance\<close>; the argument is
      \<open>os.environ.get("BALANCE_TYPE_PREFERENCE")\<close>\<close>
  "preferred_types env_value =
     (let chosen_text = (case env_value of
                           Some v \<Rightarrow> if v \<noteq> [] then v else default_preference
                         | None \<Rightarrow> default_preference);
          preferred = split (CHR '','') chosen_text
      in map strip (filter (\<lambda>p. strip p \<noteq> []) preferred))"

fun index_by_type :: "json list \<Rightarrow> (json \<Rightarrow> json option) \<Rightarrow> error + (json \<Rightarrow> json option)" where
  \<comment> \<open>the dict \<open>by_type\<close>, filled record by record; a later record of a type replaces
      an earlier one. Only \<open>str\<close> keys are ever looked up.\<close>
  "index_by_type [] by_type = Inr by_type"
| "index_by_type (b # bs) by_type =
     (case dict_get b ''balanceType'' JNull of
        Inl e \<Rightarrow> Inl e
      | Inr t \<Rightarrow>
          if truthy t
          then (if hashable t then index_by_type bs (by_type(t \<mapsto> b)) else Inl TypeError)
          else index_by_type bs by_type)"

fun first_preferred :: "string list \<Rightarrow> (json \<Rightarrow> json option) \<Rightarrow> json option" where
  \<comment> \<open>the loop over \<open>preferred\<close>; \<open>None\<close> when it ends without a \<open>break\<close>\<close>
  "first_preferred [] by_type = None"
| "first_preferred (t # ts) by_type =
     (case by_type (JStr t) of
        Some b \<Rightarrow> Some b
      | None \<Rightarrow> first_preferred ts by_type)"

definition chosen_balance :: "string option \<Rightarrow> json \<Rightarrow> error + json" where
  \<comment> \<open>\<open>choose_balance\<close> up to the choice of the record \<open>chosen\<close>\<close>
  "chosen_balance env_value balances_json =
     and_then (dict_get balances_json ''balances'' (JArr [])) (\<lambda>balances.
     if \<not> truthy balances then Inl (RuntimeError NoBalances)
     else
       and_then (iterate balances) (\<lambda>records.
       and_then (index_by_type records Map.empty) (\<lambda>by_type.
       case first_preferred (preferred_types env_value) by_type of
         Some chosen \<Rightarrow> Inr chosen
       | None \<Rightarrow> first_item balances)))"

definition balance_fields :: "json \<Rightarrow> error + decimal \<times> json \<times> json \<times> json" where
  \<comment> \<open>\<open>choose_balance\<close> from the record \<open>chosen\<close> on: \<open>(amt, cur, btype, ref)\<close>\<close>
  "balance_fields chosen =
     and_then (getitem chosen ''balanceAmount'') (\<lambda>amount_obj.
     and_then (getitem amount_obj ''amount'') (\<lambda>amount.
     and_then (Decimal amount) (\<lambda>amt.
     and_then (getitem chosen ''balanceAmount'') (\<lambda>currency_obj.
     and_then (getitem currency_obj ''currency'') (\<lambda>cur.
     and_then (dict_get chosen ''balanceType'' (JStr [])) (\<lambda>btype.
     and_then (get_or chosen [''referenceDate'', ''lastChangeDateTime'']) (\<lambda>r.
     Inr (amt, cur, btype, py_or r (JStr [])))))))))"

definition choose_balance :: "string option \<Rightarrow> json \<Rightarrow> error + decimal \<times> json \<times> json \<times> json" where
  "choose_balance env_value balances_json =
     and_then (chosen_balance env_value balances_json) balance_fields"


section \<open>Spreadsheet Writer and the run command\<close>





section \<open>Notions used to state the properties\<close>

fun balance_type :: "json \<Rightarrow> json" where
  \<comment> \<open>\<open>b.get("balanceType")\<close> of a record that is a dict\<close>
  "balance_type (JObj kvs) = (case map_of kvs ''balanceType'' of Some t \<Rightarrow> t | None \<Rightarrow> JNull)"
| "balance_type _ = JNull"

fun balance_record :: "json \<Rightarrow> bool" where
  \<comment> \<open>a balance record of the data model: a JSON object; its type label, when it has
      one, can be a dict key (the data model has a string there)\<close>
  "balance_record (JObj kvs) =
     (truthy (balance_type (JObj kvs)) \<longrightarrow> hashable (balance_type (JObj kvs)))"
| "balance_record _ = False"

definition of_type :: "string \<Rightarrow> json list \<Rightarrow> json list" where
  \<comment> \<open>the records whose type label is \<open>t\<close>, in payload order\<close>
  "of_type t records = filter (\<lambda>r. balance_type r = JStr t) records"

fun join :: "char \<Rightarrow> string list \<Rightarrow> string" where
  \<comment> \<open>\<open>sep.join(parts)\<close>\<close>
  "join sep [] = []"
| "join sep [p] = p"
| "join sep (p # q # ps) = p @ sep # join sep (q # ps)"

definition balance_of :: "string \<Rightarrow> string \<Rightarrow> json" where
  \<comment> \<open>example data: a record of the given type and amount\<close>
  "balance_of t amount =
     JObj [(''balanceType'', JStr t),
           (''balanceAmount'', JObj [(''amount'', JStr amount), (''currency'', JStr ''EUR'')])]"

definition untyped_balance :: "string \<Rightarrow> json" where
  \<comment> \<open>example data: a record with no \<open>balanceType\<close> key\<close>
  "untyped_balance amount =
     JObj [(''balanceAmount'', JObj [(''amount'', JStr amount), (''currency'', JStr ''EUR'')])]"





definition example_secrets :: "node option" where
  "example_secrets =
     Some (Directory [(''gcbad.json'',
        File (Json (JObj [(''secret_id'', JStr ''id1''), (''secret_key'', JStr ''key1'')])))])"

definition example_service_account :: "node option" where
  "example_service_account = Some (Directory [(''sa.json'', File (Json (JObj [])))])"

definition issues_r1 :: "json \<Rightarrow> json \<Rightarrow> http_result" where
  "issues_r1 secret_id secret_key =
     Response 200 (Some (JObj [(''refresh'', JStr ''r1''), (''refresh_expires'', JInt 3600)]))"



definition balances_answer :: "string \<Rightarrow> json \<Rightarrow> http_result" where
  "balances_answer path access =
     Response 200 (Some (JObj [(''balances'', JArr [balance_of ''closingBooked'' ''42.00''])]))"

definition clock_from_1000 :: "nat \<Rightarrow> rat" where
  "clock_from_1000 k = 1000 + of_nat k"

definition sheet_takes_all :: "path \<Rightarrow> string \<Rightarrow> string \<Rightarrow> cell list list \<Rightarrow> bool" where
  "sheet_takes_all sa_file spreadsheet_id a1_range values_2d = True"

definition run_environ :: "string \<Rightarrow> string option" where
  "run_environ name =
     (if name = ''GC_ACCOUNT_ID'' then Some ''acct''
      else if name = ''GSHEET_ID'' then Some ''sheet''
      else if name = ''GSHEET_RANGE'' then Some ''A1:E1''
      else None)"


definition example_world :: "node option \<Rightarrow> (json \<Rightarrow> http_result) \<Rightarrow> world" where
  \<comment> \<open>example data: a world with the given data directory and refresh endpoint\<close>
  "example_world dir refresh_endpoint =
     \<lparr>clock = clock_from_1000, ticks = 0, environ = run_environ,
      gcbad_secrets_dir = example_secrets, gsheets_secrets_dir = example_service_account,
      data_dir = dir, token_new_endpoint = issues_r1,
      token_refresh_endpoint = refresh_endpoint, get_endpoint = balances_answer,
      sheets_accepts = sheet_takes_all, requests_sent = [], sheet_updates = [], stdout = []\<rparr>"


section \<open>Properties of the Secrets Loader\<close>

text \<open>
  C6. The single-JSON lookup fails when nothing is at the directory path, and fails
  when the directory does not hold exactly one regular file whose suffix is \<open>.json\<close>
  in any letter case (none, or two or more); the condition raised is the program's
  \<open>RuntimeError\<close>, which says how many such files there are and names them in order.
  When there is exactly one such file, the lookup returns it.
\<close>

theorem find_single_json_exactly_one:
  "find_single_json None = Inl (RuntimeError SecretsDirMissing)
   \<and> (length (filter is_json_file entries) \<noteq> 1 \<longrightarrow>
        find_single_json (Some (Directory entries)) =
          Inl (RuntimeError (ExpectedOneJson (length (filter is_json_file entries))
                 (map fst (sort_key fst (filter is_json_file entries))))))
   \<and> (filter is_json_file entries = [f] \<longrightarrow>
        find_single_json (Some (Directory entries)) = Inr f \<and> f \<in> set entries \<and> is_json_file f)"
proof (intro conjI impI)
  show "find_single_json None = Inl (RuntimeError SecretsDirMissing)"
    by (simp add: find_single_json_def)
next
  assume "length (filter is_json_file entries) \<noteq> 1"
  then show "find_single_json (Some (Directory entries)) =
      Inl (RuntimeError (ExpectedOneJson (length (filter is_json_file entries))
             (map fst (sort_key fst (filter is_json_file entries)))))"
    by (simp add: find_single_json_def Let_def)
next
  assume one: "filter is_json_file entries = [f]"
  then show "find_single_json (Some (Directory entries)) = Inr f"
    by (simp add: find_single_json_def)
  have "f \<in> set (filter is_json_file entries)"
    using one by simp
  then show "f \<in> set entries" and "is_json_file f"
    by auto
qed

theorem find_single_json_exactly_one_witness:
  "find_single_json None = Inl (RuntimeError SecretsDirMissing)
   \<and> find_single_json (Some (Directory [(''notes.txt'', File NotJson), (''keys.json'', NotFile)]))
       = Inl (RuntimeError (ExpectedOneJson 0 []))
   \<and> find_single_json (Some (Directory [(''b.json'', File NotJson), (''a.JSON'', File NotJson)]))
       = Inl (RuntimeError (ExpectedOneJson 2 [''a.JSON'', ''b.json'']))
   \<and> find_single_json (Some (Directory [(''notes.txt'', File NotJson), (''sa.Json'', File (Json JNull))]))
       = Inr (''sa.Json'', File (Json JNull))"
proof -
  have js: "is_json_file (''b.json'', File NotJson)" "is_json_file (''a.JSON'', File NotJson)"
     "is_json_file (''sa.Json'', File (Json JNull))"
     "\<not> is_json_file (''notes.txt'', File NotJson)" "\<not> is_json_file (''keys.json'', NotFile)"
    by (simp_all add: is_json_file_def suffix_def lower_def lower_char_def)
  show ?thesis
    using find_single_json_exactly_one [of "[(''notes.txt'', File NotJson), (''keys.json'', NotFile)]"]
          find_single_json_exactly_one [of "[(''b.json'', File NotJson), (''a.JSON'', File NotJson)]"]
          find_single_json_exactly_one [of "[(''notes.txt'', File NotJson), (''sa.Json'', File (Json JNull))]"
                                           "(''sa.Json'', File (Json JNull))"]
    by (simp add: js)
qed


section \<open>Properties of the Balance Selector\<close>

text \<open>
  C5. When the payload has no \<open>balances\<close> key, or the list under it is empty, the
  Balance Selector raises its error \<open>No balances returned\<close>: it returns no value.
\<close>

theorem choose_balance_fails_without_balances:
  assumes "map_of payload ''balances'' = None \<or> map_of payload ''balances'' = Some (JArr [])"
  shows "choose_balance env_value (JObj payload) = Inl (RuntimeError NoBalances)"
  using assms by (auto simp: choose_balance_def chosen_balance_def and_then_def)

theorem choose_balance_fails_without_balances_witness:
  "choose_balance None (JObj []) = Inl (RuntimeError NoBalances)
   \<and> choose_balance (Some ''expected'') (JObj [(''balances'', JArr [])])
       = Inl (RuntimeError NoBalances)"
  using choose_balance_fails_without_balances [of "[]" None]
        choose_balance_fails_without_balances [of "[(''balances'', JArr [])]" "Some ''expected''"]
  by simp


subsection \<open>The choice of the record\<close>

lemma dict_get_balance_record:
  "balance_record r \<Longrightarrow> dict_get r ''balanceType'' JNull = Inr (balance_type r)"
  by (cases r) auto

lemma balance_record_hashable:
  "balance_record r \<Longrightarrow> truthy (balance_type r) \<Longrightarrow> hashable (balance_type r)"
  by (cases r) auto

lemma index_by_type_step:
  assumes "balance_record b"
  shows "index_by_type (b # bs) m =
           index_by_type bs (if truthy (balance_type b) then m(balance_type b \<mapsto> b) else m)"
  using assms balance_record_hashable[OF assms]
  by (simp add: dict_get_balance_record)

lemma index_by_type_typed:
  assumes "\<forall>r\<in>set rs. balance_record r"
  shows "index_by_type rs m =
     Inr (\<lambda>k. if truthy k \<and> filter (\<lambda>r. balance_type r = k) rs \<noteq> []
               then Some (last (filter (\<lambda>r. balance_type r = k) rs)) else m k)"
  using assms
proof (induction rs arbitrary: m)
  case Nil
  then show ?case by simp
next
  case (Cons b bs)
  have b: "balance_record b" and bs: "\<forall>r\<in>set bs. balance_record r"
    using Cons.prems by simp_all
  show ?case
    unfolding index_by_type_step[OF b] Cons.IH[OF bs]
  proof (rule arg_cong[where f=Inr], rule ext)
    fix k
    show "(if truthy k \<and> filter (\<lambda>r. balance_type r = k) bs \<noteq> []
           then Some (last (filter (\<lambda>r. balance_type r = k) bs))
           else (if truthy (balance_type b) then m(balance_type b \<mapsto> b) else m) k)
        = (if truthy k \<and> filter (\<lambda>r. balance_type r = k) (b # bs) \<noteq> []
           then Some (last (filter (\<lambda>r. balance_type r = k) (b # bs))) else m k)"
      by (cases "balance_type b = k") simp_all
  qed
qed

lemma first_preferred_find:
  "first_preferred ts m =
     (case find (\<lambda>t. m (JStr t) \<noteq> None) ts of None \<Rightarrow> None | Some t \<Rightarrow> m (JStr t))"
  by (induction ts) (auto split: option.splits)

lemma preferred_types_nonempty: "t \<in> set (preferred_types env_value) \<Longrightarrow> t \<noteq> []"
  by (auto simp: preferred_types_def Let_def)

lemma first_preferred_typed:
  assumes ne: "\<forall>t\<in>set ts. t \<noteq> []"
  shows "first_preferred ts
           (\<lambda>k. if truthy k \<and> filter (\<lambda>r. balance_type r = k) rs \<noteq> []
                 then Some (last (filter (\<lambda>r. balance_type r = k) rs)) else None)
       = (case find (\<lambda>t. of_type t rs \<noteq> []) ts of
            None \<Rightarrow> None | Some t \<Rightarrow> Some (last (of_type t rs)))"
  using ne by (induction ts) (simp_all add: of_type_def)

lemma chosen_balance_typed:
  assumes bal: "map_of payload ''balances'' = Some (JArr (b # bs))"
      and typed: "\<forall>r\<in>set (b # bs). balance_record r"
  shows "chosen_balance env_value (JObj payload) =
     (case find (\<lambda>t. of_type t (b # bs) \<noteq> []) (preferred_types env_value) of
        Some t \<Rightarrow> Inr (last (of_type t (b # bs)))
      | None \<Rightarrow> Inr b)"
proof -
  have idx: "index_by_type (b # bs) Map.empty =
     Inr (\<lambda>k. if truthy k \<and> filter (\<lambda>r. balance_type r = k) (b # bs) \<noteq> []
               then Some (last (filter (\<lambda>r. balance_type r = k) (b # bs))) else None)"
    using index_by_type_typed[OF typed, of Map.empty] by simp
  have ne: "\<forall>t\<in>set (preferred_types env_value). t \<noteq> []"
    using preferred_types_nonempty by blast
  have get: "dict_get (JObj payload) ''balances'' (JArr []) = Inr (JArr (b # bs))"
    using bal by simp
  show ?thesis
    unfolding chosen_balance_def get and_then_def
    by (simp only: sum.case truthy.simps list.simps iterate.simps idx
                   first_preferred_typed[OF ne] if_False not_False_eq_True not_True_eq_False first_item.simps
              split: option.split) simp
qed

lemma of_type_member: "r \<in> set (of_type t rs) \<longleftrightarrow> r \<in> set rs \<and> balance_type r = JStr t"
  by (auto simp: of_type_def)

lemma last_of_type:
  "of_type t rs \<noteq> [] \<Longrightarrow> last (of_type t rs) \<in> set rs \<and> balance_type (last (of_type t rs)) = JStr t"
  using last_in_set[of "of_type t rs"] of_type_member by blast

lemma find_first_present:
  assumes "ts = earlier @ t # later" and "\<forall>t'\<in>set earlier. \<not> P t'" and "P t"
  shows "find P ts = Some t"
  using assms by (induction earlier arbitrary: ts) auto

lemma chosen_balance_earliest:
  assumes bal: "map_of payload ''balances'' = Some (JArr (b # bs))"
      and typed: "\<forall>r\<in>set (b # bs). balance_record r"
      and pref: "preferred_types env_value = earlier @ t # later"
      and absent: "\<forall>t'\<in>set earlier. of_type t' (b # bs) = []"
      and present: "of_type t (b # bs) \<noteq> []"
  shows "chosen_balance env_value (JObj payload) = Inr (last (of_type t (b # bs)))"
proof -
  have "find (\<lambda>t. of_type t (b # bs) \<noteq> []) (preferred_types env_value) = Some t"
    using find_first_present[OF pref, of "\<lambda>t. of_type t (b # bs) \<noteq> []"] absent present by simp
  then show ?thesis
    by (simp add: chosen_balance_typed[OF bal typed])
qed

lemma preferred_types_default:
  "preferred_types None =
     [''closingBooked'', ''closingAvailable'', ''interimBooked'', ''interimAvailable'', ''expected'']"
  by (simp add: preferred_types_def default_preference_def strip_def is_space_def)


lemmas decimal_eval =
  decimal_of_string_def strip_def is_space_def split_sign_def parse_number_def is_digit_def
  nat_of_digits_def digit_val_def

lemma balance_fields_balance_of:
  "balance_fields (balance_of t ''1.00'') = Inr (DFinite False 100 (- 2), JStr ''EUR'', JStr t, JStr [])"
  "balance_fields (balance_of t ''2.00'') = Inr (DFinite False 200 (- 2), JStr ''EUR'', JStr t, JStr [])"
  "balance_fields (untyped_balance ''3.00'') = Inr (DFinite False 300 (- 2), JStr ''EUR'', JStr [], JStr [])"
  by (simp_all add: balance_fields_def balance_of_def untyped_balance_def and_then_def py_or_def decimal_eval)

lemma balance_of_typed [simp]:
  "balance_type (balance_of t a) = JStr t" "balance_record (balance_of t a)"
  "balance_type (untyped_balance a) = JNull" "balance_record (untyped_balance a)"
  by (simp_all add: balance_of_def untyped_balance_def)

text \<open>
  C3. For a non-empty list of balance records none of whose type labels is in the
  preference list, the Balance Selector chooses the first record of the payload, and
  returns the fields of that record.
\<close>

theorem choose_balance_falls_back_to_first:
  assumes bal: "map_of payload ''balances'' = Some (JArr (b # bs))"
      and typed: "\<forall>r\<in>set (b # bs). balance_record r"
      and none: "\<forall>r\<in>set (b # bs). \<forall>t\<in>set (preferred_types env_value). balance_type r \<noteq> JStr t"
  shows "chosen_balance env_value (JObj payload) = Inr b
       \<and> choose_balance env_value (JObj payload) = balance_fields b"
proof -
  have "\<forall>t\<in>set (preferred_types env_value). of_type t (b # bs) = []"
    using none unfolding of_type_def filter_empty_conv by blast
  then have "find (\<lambda>t. of_type t (b # bs) \<noteq> []) (preferred_types env_value) = None"
    by (simp add: find_None_iff)
  then have "chosen_balance env_value (JObj payload) = Inr b"
    by (simp add: chosen_balance_typed[OF bal typed])
  then show ?thesis
    by (simp add: choose_balance_def and_then_def)
qed

theorem choose_balance_falls_back_to_first_witness:
  "choose_balance None (JObj [(''balances'',
       JArr [balance_of ''information'' ''1.00'', balance_of ''forwardAvailable'' ''2.00''])])
     = Inr (DFinite False 100 (- 2), JStr ''EUR'', JStr ''information'', JStr [])
   \<and> choose_balance None (JObj [(''balances'',
       JArr [balance_of ''forwardAvailable'' ''2.00'', balance_of ''information'' ''1.00''])])
     = Inr (DFinite False 200 (- 2), JStr ''EUR'', JStr ''forwardAvailable'', JStr [])"
proof -
  let ?i = "balance_of ''information'' ''1.00''"
  let ?f = "balance_of ''forwardAvailable'' ''2.00''"
  have none: "\<forall>r\<in>set [?i, ?f]. \<forall>t\<in>set (preferred_types None). balance_type r \<noteq> JStr t"
       "\<forall>r\<in>set [?f, ?i]. \<forall>t\<in>set (preferred_types None). balance_type r \<noteq> JStr t"
    by (simp_all add: preferred_types_default)
  have "choose_balance None (JObj [(''balances'', JArr [?i, ?f])]) = balance_fields ?i"
    using choose_balance_falls_back_to_first[of "[(''balances'', JArr [?i, ?f])]" ?i "[?f]" None] none(1)
    by simp
  moreover have "choose_balance None (JObj [(''balances'', JArr [?f, ?i])]) = balance_fields ?f"
    using choose_balance_falls_back_to_first[of "[(''balances'', JArr [?f, ?i])]" ?f "[?i]" None] none(2)
    by simp
  ultimately show ?thesis
    by (simp add: balance_fields_balance_of)
qed

text \<open>
  C2, as stated, fails when two records carry the same type: the index keeps the later
  one, so the record returned depends on the order of the payload. Two records of type
  \<open>closingBooked\<close>, in both orders:
\<close>

theorem choose_balance_duplicate_type_counterexample:
  "choose_balance None (JObj [(''balances'',
       JArr [balance_of ''closingBooked'' ''1.00'', balance_of ''closingBooked'' ''2.00''])])
     = Inr (DFinite False 200 (- 2), JStr ''EUR'', JStr ''closingBooked'', JStr [])
   \<and> choose_balance None (JObj [(''balances'',
       JArr [balance_of ''closingBooked'' ''2.00'', balance_of ''closingBooked'' ''1.00''])])
     = Inr (DFinite False 100 (- 2), JStr ''EUR'', JStr ''closingBooked'', JStr [])
   \<and> choose_balance None (JObj [(''balances'',
       JArr [balance_of ''closingBooked'' ''1.00'', balance_of ''closingBooked'' ''2.00''])])
     \<noteq> choose_balance None (JObj [(''balances'',
       JArr [balance_of ''closingBooked'' ''2.00'', balance_of ''closingBooked'' ''1.00''])])"
proof -
  let ?one = "balance_of ''closingBooked'' ''1.00''"
  let ?two = "balance_of ''closingBooked'' ''2.00''"
  have pref: "preferred_types None = [] @ ''closingBooked'' #
       [''closingAvailable'', ''interimBooked'', ''interimAvailable'', ''expected'']"
    by (simp add: preferred_types_default)
  have absent: "\<forall>t'\<in>set []. of_type t' rs = []" for rs
    by simp
  have a: "chosen_balance None (JObj [(''balances'', JArr [?one, ?two])]) = Inr ?two"
  proof -
    have bal: "map_of [(''balances'', JArr [?one, ?two])] ''balances'' = Some (JArr [?one, ?two])"
      by simp
    have typed: "\<forall>r\<in>set [?one, ?two]. balance_record r"
      by simp
    have present: "of_type ''closingBooked'' [?one, ?two] = [?one, ?two]"
      by (simp add: of_type_def)
    show ?thesis
      using chosen_balance_earliest[OF bal typed pref absent] present by simp
  qed
  have b: "chosen_balance None (JObj [(''balances'', JArr [?two, ?one])]) = Inr ?one"
  proof -
    have bal: "map_of [(''balances'', JArr [?two, ?one])] ''balances'' = Some (JArr [?two, ?one])"
      by simp
    have typed: "\<forall>r\<in>set [?two, ?one]. balance_record r"
      by simp
    have present: "of_type ''closingBooked'' [?two, ?one] = [?two, ?one]"
      by (simp add: of_type_def)
    show ?thesis
      using chosen_balance_earliest[OF bal typed pref absent] present by simp
  qed
  show ?thesis
    by (simp add: choose_balance_def a b and_then_def balance_fields_balance_of)
qed

text \<open>
  C2, amended. For a list of balance records and the preference list in force, let
  \<open>t\<close> be the earliest entry of the preference list that is the type of some record.
  The Balance Selector returns the fields of a record of type \<open>t\<close>: the last one of
  that type in the payload. When a single record has type \<open>t\<close>, the result is that
  record's fields for every payload with the same records, whatever their order. With
  the default preference order, records of types \<open>interimAvailable\<close> and
  \<open>closingBooked\<close> yield the \<open>closingBooked\<close> record in both orders.
\<close>

theorem choose_balance_earliest_preferred:
  assumes bal: "map_of payload ''balances'' = Some (JArr records)"
      and typed: "\<forall>r\<in>set records. balance_record r"
      and pref: "preferred_types env_value = earlier @ t # later"
      and absent: "\<forall>t'\<in>set earlier. of_type t' records = []"
      and present: "of_type t records \<noteq> []"
  shows "choose_balance env_value (JObj payload) = balance_fields (last (of_type t records))
       \<and> last (of_type t records) \<in> set records
       \<and> balance_type (last (of_type t records)) = JStr t
       \<and> (\<forall>r payload' records'.
             (\<forall>r'\<in>set records. balance_type r' = JStr t \<longrightarrow> r' = r)
             \<and> map_of payload' ''balances'' = Some (JArr records')
             \<and> set records' = set records
             \<longrightarrow> choose_balance env_value (JObj payload') = balance_fields r
                 \<and> choose_balance env_value (JObj payload) = balance_fields r)"
proof -
  have sel: "choose_balance env_value (JObj p) = balance_fields (last (of_type t rs))"
    if "map_of p ''balances'' = Some (JArr rs)" and "set rs = set records" for p rs
  proof -
    have ne: "of_type t rs \<noteq> []"
      using present that(2) by (auto simp: of_type_def filter_empty_conv)
    then obtain b bs where rs: "rs = b # bs"
      by (cases rs) (auto simp: of_type_def)
    have ty: "\<forall>r\<in>set (b # bs). balance_record r"
      using typed that(2) rs by simp
    have ab: "\<forall>t'\<in>set earlier. of_type t' (b # bs) = []"
      using absent that(2) rs by (auto simp: of_type_def filter_empty_conv)
    show ?thesis
      using chosen_balance_earliest[OF that(1)[unfolded rs] ty pref ab ne[unfolded rs]]
      by (simp add: choose_balance_def and_then_def rs)
  qed
  have uniq: "last (of_type t rs) = r"
    if "\<forall>r'\<in>set records. balance_type r' = JStr t \<longrightarrow> r' = r" and "set rs = set records" for r rs
  proof -
    have "of_type t rs \<noteq> []"
      using present that(2) by (auto simp: of_type_def filter_empty_conv)
    then show ?thesis
      using last_of_type[of t rs] that by auto
  qed
  show ?thesis
    using sel[OF bal refl] last_of_type[OF present] sel uniq by auto
qed

theorem choose_balance_earliest_preferred_witness:
  "choose_balance None (JObj [(''balances'',
       JArr [balance_of ''interimAvailable'' ''1.00'', balance_of ''closingBooked'' ''2.00''])])
     = Inr (DFinite False 200 (- 2), JStr ''EUR'', JStr ''closingBooked'', JStr [])
   \<and> choose_balance None (JObj [(''balances'',
       JArr [balance_of ''closingBooked'' ''2.00'', balance_of ''interimAvailable'' ''1.00''])])
     = Inr (DFinite False 200 (- 2), JStr ''EUR'', JStr ''closingBooked'', JStr [])"
proof -
  let ?ia = "balance_of ''interimAvailable'' ''1.00''"
  let ?cb = "balance_of ''closingBooked'' ''2.00''"
  have pref: "preferred_types None = [] @ ''closingBooked'' #
       [''closingAvailable'', ''interimBooked'', ''interimAvailable'', ''expected'']"
    by (simp add: preferred_types_default)
  have bal: "map_of [(''balances'', JArr [?ia, ?cb])] ''balances'' = Some (JArr [?ia, ?cb])"
    by simp
  have typed: "\<forall>r\<in>set [?ia, ?cb]. balance_record r"
    by simp
  have absent: "\<forall>t'\<in>set []. of_type t' [?ia, ?cb] = []"
    by simp
  have present: "of_type ''closingBooked'' [?ia, ?cb] \<noteq> []"
    by (simp add: of_type_def)
  have uniq: "\<forall>r'\<in>set [?ia, ?cb]. balance_type r' = JStr ''closingBooked'' \<longrightarrow> r' = ?cb"
    by simp
  have bal': "map_of [(''balances'', JArr [?cb, ?ia])] ''balances'' = Some (JArr [?cb, ?ia])"
    by simp
  have "set [?cb, ?ia] = set [?ia, ?cb]"
    by auto
  with choose_balance_earliest_preferred[OF bal typed pref absent present] uniq bal'
  have "choose_balance None (JObj [(''balances'', JArr [?cb, ?ia])]) = balance_fields ?cb
      \<and> choose_balance None (JObj [(''balances'', JArr [?ia, ?cb])]) = balance_fields ?cb"
    by blast
  then show ?thesis
    by (simp add: balance_fields_balance_of)
qed

text \<open>
  C9. A record whose \<open>balanceType\<close> is absent or empty never enters the type index:
  every record of the index carries the non-empty label it is filed under. So when the
  record chosen has no type label, no preferred type was in the index and the record
  is the first of the payload. And when the first record has no type label while the
  type of a later record is in the preference list, a later record with a preferred
  type is chosen and its fields are returned.
\<close>

theorem falsy_type_only_by_fallback:
  assumes bal: "map_of payload ''balances'' = Some (JArr (b # bs))"
      and typed: "\<forall>r\<in>set (b # bs). balance_record r"
  shows "(\<forall>by_type k r. index_by_type (b # bs) Map.empty = Inr by_type \<and> by_type k = Some r
            \<longrightarrow> r \<in> set (b # bs) \<and> balance_type r = k \<and> truthy (balance_type r))
       \<and> (\<forall>r. chosen_balance env_value (JObj payload) = Inr r \<and> \<not> truthy (balance_type r)
            \<longrightarrow> r = b \<and> (\<forall>t\<in>set (preferred_types env_value). of_type t (b # bs) = []))
       \<and> (\<not> truthy (balance_type b) \<and> (\<exists>t\<in>set (preferred_types env_value). of_type t bs \<noteq> [])
            \<longrightarrow> (\<exists>r\<in>set bs. \<exists>t\<in>set (preferred_types env_value).
                   balance_type r = JStr t
                   \<and> chosen_balance env_value (JObj payload) = Inr r
                   \<and> choose_balance env_value (JObj payload) = balance_fields r))"
proof (intro conjI allI impI)
  fix by_type k r
  assume a: "index_by_type (b # bs) Map.empty = Inr by_type \<and> by_type k = Some r"
  let ?f = "filter (\<lambda>r. balance_type r = k) (b # bs)"
  have bt: "by_type = (\<lambda>k. if truthy k \<and> filter (\<lambda>r. balance_type r = k) (b # bs) \<noteq> []
               then Some (last (filter (\<lambda>r. balance_type r = k) (b # bs))) else None)"
    using a index_by_type_typed[OF typed, of Map.empty] by simp
  have k: "truthy k" and ne: "?f \<noteq> []" and r: "r = last ?f"
    using a unfolding bt by (auto split: if_splits)
  have "last ?f \<in> set ?f"
    using ne by (rule last_in_set)
  then have "r \<in> set (b # bs) \<and> balance_type r = k"
    unfolding r by (metis (mono_tags, lifting) mem_Collect_eq set_filter)
  then show "r \<in> set (b # bs)" "balance_type r = k" "truthy (balance_type r)"
    using k by simp_all
next
  fix r
  assume a: "chosen_balance env_value (JObj payload) = Inr r \<and> \<not> truthy (balance_type r)"
  let ?found = "find (\<lambda>t. of_type t (b # bs) \<noteq> []) (preferred_types env_value)"
  have none: "?found = None"
  proof (cases ?found)
    case None
    then show ?thesis .
  next
    case (Some t)
    then have t: "t \<in> set (preferred_types env_value)" and ne: "of_type t (b # bs) \<noteq> []"
      by (auto simp: find_Some_iff)
    have "r = last (of_type t (b # bs))"
      using a Some by (simp add: chosen_balance_typed[OF bal typed])
    then have "balance_type r = JStr t"
      using last_of_type[OF ne] by simp
    then have "truthy (balance_type r)"
      using preferred_types_nonempty[OF t] by simp
    then show ?thesis using a by simp
  qed
  then show "r = b"
    using a by (simp add: chosen_balance_typed[OF bal typed])
  show "\<forall>t\<in>set (preferred_types env_value). of_type t (b # bs) = []"
    using none by (simp add: find_None_iff)
next
  assume a: "\<not> truthy (balance_type b) \<and> (\<exists>t\<in>set (preferred_types env_value). of_type t bs \<noteq> [])"
  let ?found = "find (\<lambda>t. of_type t (b # bs) \<noteq> []) (preferred_types env_value)"
  from a obtain t' where t': "t' \<in> set (preferred_types env_value)" "of_type t' bs \<noteq> []"
    by blast
  then have "of_type t' (b # bs) \<noteq> []"
    by (auto simp: of_type_def)
  then have "?found \<noteq> None"
    using t'(1) by (auto simp: find_None_iff)
  then obtain t where found: "?found = Some t"
    by blast
  then have t: "t \<in> set (preferred_types env_value)" and ne: "of_type t (b # bs) \<noteq> []"
    by (auto simp: find_Some_iff)
  let ?r = "last (of_type t (b # bs))"
  have ch: "chosen_balance env_value (JObj payload) = Inr ?r"
    using found by (simp add: chosen_balance_typed[OF bal typed])
  have ty: "?r \<in> set (b # bs)" "balance_type ?r = JStr t"
    using last_of_type[OF ne] by simp_all
  have "truthy (balance_type ?r)"
    using ty(2) preferred_types_nonempty[OF t] by simp
  then have "?r \<noteq> b"
    using a by auto
  then have "?r \<in> set bs"
    using ty(1) by simp
  moreover have "choose_balance env_value (JObj payload) = balance_fields ?r"
    using ch by (simp add: choose_balance_def and_then_def)
  ultimately show "\<exists>r\<in>set bs. \<exists>t\<in>set (preferred_types env_value).
                   balance_type r = JStr t
                   \<and> chosen_balance env_value (JObj payload) = Inr r
                   \<and> choose_balance env_value (JObj payload) = balance_fields r"
    using t ty(2) ch by blast
qed

theorem falsy_type_only_by_fallback_witness:
  "choose_balance None (JObj [(''balances'',
       JArr [untyped_balance ''3.00'', balance_of ''expected'' ''1.00''])])
     = Inr (DFinite False 100 (- 2), JStr ''EUR'', JStr ''expected'', JStr [])
   \<and> chosen_balance None (JObj [(''balances'',
       JArr [untyped_balance ''3.00'', balance_of ''expected'' ''1.00''])])
     = Inr (balance_of ''expected'' ''1.00'')"
proof -
  let ?u = "untyped_balance ''3.00''"
  let ?e = "balance_of ''expected'' ''1.00''"
  have bal: "map_of [(''balances'', JArr [?u, ?e])] ''balances'' = Some (JArr (?u # [?e]))"
    by simp
  have typed: "\<forall>r\<in>set (?u # [?e]). balance_record r"
    by simp
  have first: "\<not> truthy (balance_type ?u)"
    by simp
  have later: "\<exists>t\<in>set (preferred_types None). of_type t [?e] \<noteq> []"
    by (simp add: preferred_types_default of_type_def)
  from falsy_type_only_by_fallback[OF bal typed, of None] first later
  have "\<exists>r\<in>set [?e]. \<exists>t\<in>set (preferred_types None).
          balance_type r = JStr t
          \<and> chosen_balance None (JObj [(''balances'', JArr [?u, ?e])]) = Inr r
          \<and> choose_balance None (JObj [(''balances'', JArr [?u, ?e])]) = balance_fields r"
    by blast
  then show ?thesis
    by (simp add: balance_fields_balance_of)
qed


subsection \<open>The preference list\<close>

lemma split_not_Nil: "split sep s \<noteq> []"
  by (induction s) (auto split: list.splits)

lemma join_split: "join sep (split sep s) = s"
proof (induction s)
  case Nil
  then show ?case by simp
next
  case (Cons c cs)
  obtain p ps where sp: "split sep cs = p # ps"
    using split_not_Nil[of sep cs] by (cases "split sep cs") auto
  show ?case
  proof (cases "c = sep")
    case True
    then show ?thesis using Cons.IH sp by simp
  next
    case False
    have "join sep ((c # p) # ps) = c # join sep (p # ps)"
      by (cases ps) simp_all
    then show ?thesis using False Cons.IH sp by simp
  qed
qed

lemma split_no_sep: "p \<in> set (split sep s) \<Longrightarrow> sep \<notin> set p"
proof (induction s arbitrary: p)
  case Nil
  then show ?case by simp
next
  case (Cons c cs)
  obtain q qs where sp: "split sep cs = q # qs"
    using split_not_Nil[of sep cs] by (cases "split sep cs") auto
  show ?case
  proof (cases "c = sep")
    case True
    then show ?thesis using Cons by auto
  next
    case False
    then have "p = c # q \<or> p \<in> set qs"
      using Cons.prems sp by simp
    then show ?thesis
      using False Cons.IH[of q] Cons.IH[of p] sp by auto
  qed
qed

lemma rev_dropWhile_takeWhile:
  "xs = rev (dropWhile P (rev xs)) @ rev (takeWhile P (rev xs))"
  by (metis rev_append rev_rev_ident takeWhile_dropWhile_id)

lemma strip_decomposition:
  "\<exists>l r. p = l @ strip p @ r \<and> list_all is_space l \<and> list_all is_space r"
proof -
  let ?q = "dropWhile is_space p"
  let ?l = "takeWhile is_space p"
  let ?r = "rev (takeWhile is_space (rev ?q))"
  have q: "?q = strip p @ ?r"
    unfolding strip_def by (rule rev_dropWhile_takeWhile)
  have "p = ?l @ ?q"
    by simp
  then have "p = ?l @ strip p @ ?r"
    using q by simp
  moreover have "list_all is_space ?l"
    by (simp add: list_all_iff) (meson set_takeWhileD)
  moreover have "list_all is_space ?r"
    by (simp add: list_all_iff) (meson set_takeWhileD)
  ultimately show ?thesis by blast
qed

lemma strip_ends:
  assumes "strip p \<noteq> []"
  shows "\<not> is_space (hd (strip p))" "\<not> is_space (last (strip p))"
proof -
  let ?q = "dropWhile is_space p"
  let ?d = "dropWhile is_space (rev ?q)"
  have d: "?d \<noteq> []"
    using assms by (simp add: strip_def)
  then have "\<not> is_space (hd ?d)"
    by (rule hd_dropWhile)
  then show "\<not> is_space (last (strip p))"
    using d by (simp add: strip_def last_rev)
  have qne: "?q \<noteq> []"
    using d by (metis dropWhile.simps(1) rev_is_Nil_conv)
  then have hq: "\<not> is_space (hd ?q)"
    by (rule hd_dropWhile)
  have "?q = strip p @ rev (takeWhile is_space (rev ?q))"
    unfolding strip_def by (rule rev_dropWhile_takeWhile)
  then have "hd ?q = hd (strip p)"
    using assms by (metis hd_append2)
  then show "\<not> is_space (hd (strip p))"
    using hq by simp
qed


text \<open>
  C10. The preference list is read from \<open>BALANCE_TYPE_PREFERENCE\<close>: when the variable
  is unset or empty, the list is \<open>closingBooked\<close>, \<open>closingAvailable\<close>,
  \<open>interimBooked\<close>, \<open>interimAvailable\<close>, \<open>expected\<close>. Otherwise the value is
  split at its commas (the parts contain no comma and, joined by commas, give the value
  back), each part is stripped (whitespace is cut from both ends: what is left neither
  starts nor ends with whitespace), and the parts that strip to nothing are dropped.
\<close>

theorem preferred_types_from_environment:
  "preferred_types None =
     [''closingBooked'', ''closingAvailable'', ''interimBooked'', ''interimAvailable'', ''expected'']
   \<and> preferred_types (Some []) =
     [''closingBooked'', ''closingAvailable'', ''interimBooked'', ''interimAvailable'', ''expected'']
   \<and> (v \<noteq> [] \<longrightarrow>
        preferred_types (Some v) = map strip (filter (\<lambda>p. strip p \<noteq> []) (split (CHR '','') v)))
   \<and> join (CHR '','') (split (CHR '','') v) = v
   \<and> (\<forall>p\<in>set (split (CHR '','') v). CHR '','' \<notin> set p)
   \<and> (\<forall>p. \<exists>l r. p = l @ strip p @ r \<and> list_all is_space l \<and> list_all is_space r)
   \<and> (\<forall>p. strip p \<noteq> [] \<longrightarrow> \<not> is_space (hd (strip p)) \<and> \<not> is_space (last (strip p)))"
proof -
  have 1: "preferred_types None =
     [''closingBooked'', ''closingAvailable'', ''interimBooked'', ''interimAvailable'', ''expected'']"
    by (rule preferred_types_default)
  have 2: "preferred_types (Some []) = preferred_types None"
    by (simp add: preferred_types_def)
  have 3: "v \<noteq> [] \<longrightarrow>
        preferred_types (Some v) = map strip (filter (\<lambda>p. strip p \<noteq> []) (split (CHR '','') v))"
    by (simp add: preferred_types_def)
  show ?thesis
    using 1 2 3 join_split split_no_sep strip_decomposition strip_ends
    by (simp only: simp_thms) blast
qed

theorem preferred_types_from_environment_witness:
  "preferred_types None =
     [''closingBooked'', ''closingAvailable'', ''interimBooked'', ''interimAvailable'', ''expected'']
   \<and> preferred_types (Some []) =
     [''closingBooked'', ''closingAvailable'', ''interimBooked'', ''interimAvailable'', ''expected'']
   \<and> preferred_types (Some '' interimBooked , ,expected,'') = [''interimBooked'', ''expected'']
   \<and> split (CHR '','') '' interimBooked , ,expected,'' = ['' interimBooked '', '' '', ''expected'', []]
   \<and> join (CHR '','') ['' interimBooked '', '' '', ''expected'', []] = '' interimBooked , ,expected,''"
proof -
  have sp: "split (CHR '','') '' interimBooked , ,expected,'' = ['' interimBooked '', '' '', ''expected'', []]"
    by simp
  have st: "strip '' interimBooked '' = ''interimBooked''" "strip '' '' = []"
           "strip ''expected'' = ''expected''" "strip [] = []"
    by (simp_all add: strip_def is_space_def)
  have ne: "'' interimBooked , ,expected,'' \<noteq> []"
    by simp
  from preferred_types_from_environment[of "'' interimBooked , ,expected,''"] ne
  show ?thesis
    unfolding sp by (simp add: st)
qed

subsection \<open>The amount\<close>














section \<open>Properties of the Token Manager\<close>

lemma send_fields [simp]:
  "requests_sent (send r w) = requests_sent w @ [r]"
  "clock (send r w) = clock w" "ticks (send r w) = ticks w"
  "data_dir (send r w) = data_dir w" "gcbad_secrets_dir (send r w) = gcbad_secrets_dir w"
  "gsheets_secrets_dir (send r w) = gsheets_secrets_dir w"
  "sheet_updates (send r w) = sheet_updates w" "environ (send r w) = environ w"
  "token_new_endpoint (send r w) = token_new_endpoint w"
  "token_refresh_endpoint (send r w) = token_refresh_endpoint w"
  "get_endpoint (send r w) = get_endpoint w" "sheets_accepts (send r w) = sheets_accepts w"
  "stdout (send r w) = stdout w"
  by (simp_all add: send_def)


lemma token_new_sends:
  "requests_sent (snd (token_new secret_id secret_key w)) =
     requests_sent w @ [PostTokenNew secret_id secret_key]"
  by (simp add: token_new_def Let_def time_time_def split: sum.splits)










lemma example_world_fields [simp]:
  "clock (example_world d r) = clock_from_1000" "ticks (example_world d r) = 0"
  "environ (example_world d r) = run_environ"
  "gcbad_secrets_dir (example_world d r) = example_secrets"
  "gsheets_secrets_dir (example_world d r) = example_service_account"
  "data_dir (example_world d r) = d" "token_new_endpoint (example_world d r) = issues_r1"
  "token_refresh_endpoint (example_world d r) = r"
  "get_endpoint (example_world d r) = balances_answer"
  "sheets_accepts (example_world d r) = sheet_takes_all"
  "requests_sent (example_world d r) = []" "sheet_updates (example_world d r) = []"
  "stdout (example_world d r) = []"
  by (simp_all add: example_world_def)















section \<open>Properties of the run command\<close>

lemma time_time_keeps [simp]:
  "sheet_updates (snd (time_time w)) = sheet_updates w"
  "requests_sent (snd (time_time w)) = requests_sent w"
  "data_dir (snd (time_time w)) = data_dir w"
  by (simp_all add: time_time_def)


















end
